theory Spec2Isabelle
  imports Complex_Main
begin

section \<open>Loading SCImago journal ranks: the script \<open>load_journal_data_to_bq.py\<close>\<close>

text \<open>
  The script reads a semicolon-delimited CSV file, keeps two fields of every row (the
  title and the SJR score) and loads them into a warehouse table that it deletes and
  creates again first. This theory embeds its four functions,
  \<open>process_scimagojr_csv\<close>, \<open>create_bigquery_table\<close>, \<open>load_data_to_bigquery\<close> and
  \<open>main\<close>, together with the behaviour of the Python built-ins they call.

  Text is a \<open>string\<close>; a character stands for the Unicode code point of the same
  number, so the model covers text whose code points are below 256.
\<close>

subsection \<open>Python strings: \<open>str.strip\<close> and \<open>str.replace\<close>\<close>

text \<open>\<open>str.isspace\<close> on one character: the code points below 256 that Python strips.\<close>

definition py_isspace :: "char \<Rightarrow> bool" where
  "py_isspace c = (of_char c \<in> {9, 10, 11, 12, 13, 28, 29, 30, 31, 32, 133, 160 :: nat})"

text \<open>\<open>s.strip()\<close>: drop the whitespace at both ends.\<close>

definition strip :: "string \<Rightarrow> string" where
  "strip s = rev (dropWhile py_isspace (rev (dropWhile py_isspace s)))"

text \<open>\<open>s.replace(',', '.')\<close>: every comma becomes a period.\<close>

definition replace_comma :: "string \<Rightarrow> string" where
  "replace_comma s = map (\<lambda>c. if c = CHR '','' then CHR ''.'' else c) s"

subsection \<open>Python floats and \<open>float(str)\<close>\<close>

text \<open>
  A Python float is an IEEE 754 double. A finite double is modelled by the rational
  number it denotes (so the two zeros are one value); the other doubles are the two
  infinities and NaN.
\<close>

datatype pyfloat = Finite rat | PosInf | NegInf | NaN

fun is_finite :: "pyfloat \<Rightarrow> bool" where
  "is_finite (Finite _) = True"
| "is_finite _ = False"

text \<open>The number of bits of a natural number.\<close>

fun bitlen :: "nat \<Rightarrow> nat" where
  "bitlen n = (if n = 0 then 0 else Suc (bitlen (n div 2)))"

declare bitlen.simps [simp del]

text \<open>
  \<open>floor_log2 num den\<close> is the integer part of the binary logarithm of \<open>num / den\<close>,
  for positive \<open>num\<close> and \<open>den\<close>.
\<close>

definition floor_log2 :: "nat \<Rightarrow> nat \<Rightarrow> int" where
  "floor_log2 num den =
     (let d = int (bitlen num) - int (bitlen den)
      in if (if d \<ge> 0 then den * 2 ^ nat d \<le> num else den \<le> num * 2 ^ nat (- d))
         then d else d - 1)"

text \<open>Division of naturals rounded to the nearest integer, ties to the even one.\<close>

definition div_half_even :: "nat \<Rightarrow> nat \<Rightarrow> nat" where
  "div_half_even a b =
     (let q = a div b; r = a mod b
      in if 2 * r < b then q
         else if 2 * r > b then q + 1
         else if even q then q else q + 1)"

text \<open>
  The double nearest to \<open>\<plusminus> n * 10 ^ k\<close> (round to nearest, ties to even): 53 bits of
  precision, the least exponent of a subnormal is \<open>-1074\<close>, and a value that rounds to
  \<open>2 ^ 1024\<close> or more is an infinity. This is what \<open>float\<close> returns for a decimal
  literal; overflow gives an infinity, not an error.
\<close>

definition round_double :: "bool \<Rightarrow> nat \<Rightarrow> int \<Rightarrow> pyfloat" where
  "round_double neg n k =
     (if n = 0 then Finite 0
      else
        let num = (if k \<ge> 0 then n * 10 ^ nat k else n);
            den = (if k \<ge> 0 then 1 else 10 ^ nat (- k));
            p = max (floor_log2 num den - 52) (- 1074);
            m = (if p \<ge> 0 then div_half_even num (den * 2 ^ nat p)
                 else div_half_even (num * 2 ^ nat (- p)) den);
            v = (if p \<ge> 0 then of_nat m * 2 ^ nat p else of_nat m / 2 ^ nat (- p))
        in if v \<ge> 2 ^ 1024 then (if neg then NegInf else PosInf)
           else Finite (if neg then - v else v))"

definition is_digit :: "char \<Rightarrow> bool" where
  "is_digit c = (c \<in> set ''0123456789'')"

definition digit_val :: "char \<Rightarrow> nat" where
  "digit_val c = of_char c - 48"

definition digits_val :: "string \<Rightarrow> nat" where
  "digits_val ds = foldl (\<lambda>a c. 10 * a + digit_val c) 0 ds"

text \<open>An optional sign: whether it is a minus, and the rest of the text.\<close>

fun take_sign :: "string \<Rightarrow> bool \<times> string" where
  "take_sign [] = (False, [])"
| "take_sign (c # cs) =
     (if c = CHR ''-'' then (True, cs)
      else if c = CHR ''+'' then (False, cs)
      else (False, c # cs))"

text \<open>
  Underscores between digits are removed before the number is read; an underscore
  that does not follow a digit, or is not followed by one, makes the text invalid.
  \<open>prev\<close> is the character before, the NUL character at the start.
\<close>

fun remove_underscores :: "char \<Rightarrow> string \<Rightarrow> string option" where
  "remove_underscores prev [] = (if prev = CHR ''_'' then None else Some [])"
| "remove_underscores prev (c # cs) =
     (if c = CHR ''_'' then
        (if is_digit prev then remove_underscores c cs else None)
      else if prev = CHR ''_'' \<and> \<not> is_digit c then None
      else map_option (Cons c) (remove_underscores c cs))"

text \<open>
  The decimal literal at the start of a text, as \<open>strtod\<close> reads it: a sign, digits
  with at most one period and at least one digit, and an exponent when the letter
  \<open>e\<close> is followed by digits. The result is the double and the text left over;
  \<open>None\<close> when there is no decimal literal.
\<close>

definition strtod :: "string \<Rightarrow> (pyfloat \<times> string) option" where
  "strtod s =
     (let (neg, s1) = take_sign s;
          ip = takeWhile is_digit s1;
          s2 = dropWhile is_digit s1;
          has_point = (s2 \<noteq> [] \<and> hd s2 = CHR ''.'');
          fp = (if has_point then takeWhile is_digit (tl s2) else []);
          s3 = (if has_point then dropWhile is_digit (tl s2) else s2)
      in if ip = [] \<and> fp = [] then None
         else
           let has_e = (s3 \<noteq> [] \<and> (hd s3 = CHR ''e'' \<or> hd s3 = CHR ''E''));
               (eneg, s4) = (if has_e then take_sign (tl s3) else (False, s3));
               ed = (if has_e then takeWhile is_digit s4 else []);
               s5 = (if ed = [] then s3 else dropWhile is_digit s4);
               e = (if eneg then - int (digits_val ed) else int (digits_val ed))
           in Some (round_double neg (digits_val (ip @ fp)) (e - int (length fp)), s5))"

text \<open>The lower-case form of an ASCII letter (\<open>Py_TOLOWER\<close>); other characters are kept.\<close>

definition to_lower :: "char \<Rightarrow> char" where
  "to_lower c =
     (case map_of (zip ''ABCDEFGHIJKLMNOPQRSTUVWXYZ'' ''abcdefghijklmnopqrstuvwxyz'') c of
        Some l \<Rightarrow> l
      | None \<Rightarrow> c)"

text \<open>
  The spellings of the special values, in any case and with an optional sign:
  \<open>inf\<close>, \<open>infinity\<close> and \<open>nan\<close>.
\<close>

definition parse_inf_or_nan :: "string \<Rightarrow> (pyfloat \<times> string) option" where
  "parse_inf_or_nan s =
     (let (neg, s1) = take_sign s
      in if map to_lower (take 3 s1) = ''inf'' then
           Some (if neg then NegInf else PosInf,
                 if map to_lower (take 5 (drop 3 s1)) = ''inity'' then drop 8 s1 else drop 3 s1)
         else if map to_lower (take 3 s1) = ''nan'' then Some (NaN, drop 3 s1)
         else None)"

text \<open>
  Whitespace as \<open>float\<close> strips it: ASCII whitespace, and the code points above 127
  that are spaces (they are turned into a space first).
\<close>

definition float_isspace :: "char \<Rightarrow> bool" where
  "float_isspace c = (of_char c \<in> {9, 10, 11, 12, 13, 32, 133, 160 :: nat})"

text \<open>
  \<open>float(s)\<close>: \<open>None\<close> stands for the \<open>ValueError\<close>. The whole text, without the
  whitespace around it, must be one literal.
\<close>

definition float_py :: "string \<Rightarrow> pyfloat option" where
  "float_py s =
     (let t = rev (dropWhile float_isspace (rev (dropWhile float_isspace s)))
      in case remove_underscores (CHR 0x00) t of
           None \<Rightarrow> None
         | Some u \<Rightarrow>
             (case strtod u of
                Some (x, rest) \<Rightarrow> if rest = [] then Some x else None
              | None \<Rightarrow>
                  (case parse_inf_or_nan u of
                     Some (x, rest) \<Rightarrow> if rest = [] then Some x else None
                   | None \<Rightarrow> None)))"

subsection \<open>\<open>csv.DictReader\<close>\<close>

text \<open>
  The input of the extractor is the list of rows that \<open>csv.reader(file, delimiter=';')\<close>
  yields for the file: a row is the list of its fields, and an empty line is the row
  \<open>[]\<close>. \<open>DictReader\<close> takes the first row as the field names and turns every later
  row that is not \<open>[]\<close> into a dictionary.

  A value of such a dictionary is a field of the row or, for a field name beyond the
  end of a short row, \<open>None\<close> (the default \<open>restval\<close>). The fields of a long row
  beyond the names are stored under the key \<open>None\<close>, which no lookup of the script
  uses, so they are left out.
\<close>

datatype cell = Str string | PyNone

type_synonym dict_row = "string \<rightharpoonup> cell"

text \<open>
  \<open>dict(zip(fieldnames, row))\<close>, in which a later pair with the same name wins, and
  then \<open>d[key] = None\<close> for every name beyond the length of the row.
\<close>

definition make_row :: "string list \<Rightarrow> string list \<Rightarrow> dict_row" where
  "make_row fieldnames row =
     (let d = map_of (rev (zip fieldnames (map Str row)))
      in if length fieldnames > length row
         then foldl (\<lambda>d key. d(key \<mapsto> PyNone)) d (drop (length row) fieldnames)
         else d)"

text \<open>The data rows: the rows after the header, without the empty ones.\<close>

definition data_rows :: "string list list \<Rightarrow> string list list" where
  "data_rows rows = filter (\<lambda>r. r \<noteq> []) (tl rows)"

text \<open>The dictionaries the reader yields, one for each data row.\<close>

definition dict_reader :: "string list list \<Rightarrow> dict_row list" where
  "dict_reader rows = (case rows of [] \<Rightarrow> [] | fieldnames # _ \<Rightarrow> map (make_row fieldnames) (data_rows rows))"

subsection \<open>Exceptions, console output and events\<close>

text \<open>
  The exceptions of a run. \<open>LibraryError\<close> is an exception raised by the warehouse
  client library or by \<open>open\<close>, named by its text. \<open>SystemExit\<close> carries the status
  given to \<open>sys.exit\<close>.
\<close>

datatype exn =
    KeyError string
  | AttributeError
  | LibraryError string
  | SystemExit nat

text \<open>
  A printed line is the list of the pieces of its f-string: literal text and text
  fields, and the numbers and floats whose decimal rendering is left symbolic.
\<close>

datatype piece = Txt string | Num nat | Flt pyfloat

record journal =
  title :: string
  sjr :: pyfloat

datatype schema_field = SchemaField string string string

datatype write_disposition = WRITE_TRUNCATE | WRITE_APPEND | WRITE_EMPTY

record job_config =
  schema :: "schema_field list"
  write_disposition :: write_disposition

text \<open>
  What a run does to the outside, in order: lines printed, the file opened, and the
  calls of the warehouse client.
\<close>

datatype event =
    Print "piece list"
  | OpenFile string
  | NewClient string
  | DeleteTable string
  | CreateTable string "schema_field list"
  | LoadTableFromJson "journal list" string job_config
  | JobResult
  | GetTable string

subsection \<open>The CSV extractor: \<open>process_scimagojr_csv\<close>\<close>

text \<open>\<open>row[key]\<close>: a missing key raises \<open>KeyError\<close>.\<close>

definition getitem :: "dict_row \<Rightarrow> string \<Rightarrow> exn + cell" where
  "getitem row key = (case row key of None \<Rightarrow> Inl (KeyError key) | Some c \<Rightarrow> Inr c)"

text \<open>\<open>value.strip()\<close>: \<open>None\<close> has no method \<open>strip\<close>, which raises \<open>AttributeError\<close>.\<close>

definition strip_method :: "cell \<Rightarrow> exn + string" where
  "strip_method c = (case c of PyNone \<Rightarrow> Inl AttributeError | Str s \<Rightarrow> Inr (strip s))"

text \<open>The warning line; \<open>CHR 0x27\<close> is the single quote.\<close>

definition warning :: "string \<Rightarrow> string \<Rightarrow> event" where
  "warning sjr_str ttl =
     Print [Txt ''Warning: Could not parse SJR value '', Txt [CHR 0x27], Txt sjr_str,
            Txt [CHR 0x27], Txt '' for journal '', Txt [CHR 0x27], Txt ttl, Txt [CHR 0x27]]"

text \<open>
  The body of the loop over the rows of the reader, with the list \<open>journals\<close> built so
  far and the events so far; \<open>ttl\<close> is the variable \<open>title\<close> of the script. An
  exception ends the loop; the events stay.
\<close>

fun row_loop :: "dict_row list \<Rightarrow> journal list \<Rightarrow> event list \<Rightarrow> (exn + journal list) \<times> event list" where
  "row_loop [] journals ev = (Inr journals, ev)"
| "row_loop (row # rows) journals ev =
     (case getitem row ''Title'' of
        Inl e \<Rightarrow> (Inl e, ev)
      | Inr c1 \<Rightarrow>
     (case strip_method c1 of
        Inl e \<Rightarrow> (Inl e, ev)
      | Inr ttl \<Rightarrow>
     (case getitem row ''SJR'' of
        Inl e \<Rightarrow> (Inl e, ev)
      | Inr c2 \<Rightarrow>
     (case strip_method c2 of
        Inl e \<Rightarrow> (Inl e, ev)
      | Inr sjr_str \<Rightarrow>
     (case float_py (replace_comma sjr_str) of
        Some x \<Rightarrow> row_loop rows (journals @ [\<lparr>title = ttl, sjr = x\<rparr>]) ev
      | None \<Rightarrow>
          row_loop rows (journals @ [\<lparr>title = ttl, sjr = Finite 0\<rparr>])
            (ev @ [warning sjr_str ttl]))))))"

text \<open>
  A path of the file system: nothing there, something that exists but that \<open>open\<close>
  refuses (a directory, a file without read permission), or a text file, given by
  the rows the CSV reader yields for it.
\<close>

datatype file_state = Missing | Unreadable string | Readable "string list list"

type_synonym file_system = "string \<Rightarrow> file_state"

text \<open>The file system that holds one text file, with the given rows, and nothing else.\<close>

definition one_file :: "string \<Rightarrow> string list list \<Rightarrow> file_system" where
  "one_file p rows q = (if q = p then Readable rows else Missing)"

definition process_scimagojr_csv ::
    "file_system \<Rightarrow> string \<Rightarrow> event list \<Rightarrow> (exn + journal list) \<times> event list" where
  "process_scimagojr_csv fs csv_file_path ev =
     (case fs csv_file_path of
        Missing \<Rightarrow> (Inl (LibraryError ''FileNotFoundError''), ev)
      | Unreadable e \<Rightarrow> (Inl (LibraryError e), ev)
      | Readable rows \<Rightarrow> row_loop (dict_reader rows) [] (ev @ [OpenFile csv_file_path]))"

subsection \<open>What a row becomes\<close>

text \<open>
  The score the specification gives to an SJR field: trim it, replace every comma by
  a period and read it as a float; \<open>0.0\<close> when that fails.
\<close>

definition sjr_of :: "string \<Rightarrow> pyfloat" where
  "sjr_of s = (case float_py (replace_comma (strip s)) of Some x \<Rightarrow> x | None \<Rightarrow> Finite 0)"

text \<open>
  The record the specification gives to a row: it has one when both \<open>Title\<close> and
  \<open>SJR\<close> are fields of the row.
\<close>

definition journal_of_row :: "dict_row \<Rightarrow> journal option" where
  "journal_of_row row =
     (case row ''Title'' of
        Some (Str t) \<Rightarrow>
          (case row ''SJR'' of
             Some (Str s) \<Rightarrow> Some \<lparr>title = strip t, sjr = sjr_of s\<rparr>
           | _ \<Rightarrow> None)
      | _ \<Rightarrow> None)"

subsection \<open>The warehouse client\<close>

text \<open>
  The warehouse and its client library are outside the script. The remote state is a
  value of any type \<open>'w\<close>, and every call of the library that the script makes is a
  field of the record: it takes the state and returns its outcome and the new state.
  An outcome is a result or the name of the exception raised, so each call may fail
  in each state; the library raises subclasses of \<open>Exception\<close> only, which the script
  sees as \<open>LibraryError\<close>. A load job is a value of any type \<open>'j\<close>. \<open>bq_Client\<close> and
  \<open>bq_Table\<close> are the constructors \<open>bigquery.Client\<close> and \<open>bigquery.Table\<close>, and
  \<open>get_table\<close> returns the field \<open>num_rows\<close> of the table it fetched.
\<close>

record ('w, 'j) bq =
  bq_Client :: "string \<Rightarrow> 'w \<Rightarrow> string option \<times> 'w"
  bq_Table :: "string \<Rightarrow> string option"
  delete_table :: "string \<Rightarrow> 'w \<Rightarrow> string option \<times> 'w"
  create_table :: "string \<Rightarrow> schema_field list \<Rightarrow> 'w \<Rightarrow> string option \<times> 'w"
  load_table_from_json :: "journal list \<Rightarrow> string \<Rightarrow> job_config \<Rightarrow> 'w \<Rightarrow> (string + 'j) \<times> 'w"
  job_result :: "'j \<Rightarrow> 'w \<Rightarrow> string option \<times> 'w"
  get_table :: "string \<Rightarrow> 'w \<Rightarrow> (string + nat) \<times> 'w"

text \<open>The state of a run: the remote state and the events so far.\<close>

type_synonym 'w state = "'w \<times> event list"

text \<open>\<open>f"{project_id}.{dataset_id}.{table_id}"\<close>\<close>

definition table_ref_of :: "string \<Rightarrow> string \<Rightarrow> string \<Rightarrow> string" where
  "table_ref_of project_id dataset_id table_id =
     project_id @ ''.'' @ dataset_id @ ''.'' @ table_id"

definition table_schema :: "schema_field list" where
  "table_schema =
     [SchemaField ''title'' ''STRING'' ''REQUIRED'', SchemaField ''sjr'' ''FLOAT64'' ''REQUIRED'']"

subsection \<open>The schema manager: \<open>create_bigquery_table\<close>\<close>

text \<open>
  The \<open>try\<close> around \<open>delete_table\<close> catches every \<open>Exception\<close>: whatever the outcome
  of the deletion, the function goes on, and the line \<open>Deleted existing table\<close> is
  printed only when the deletion raised nothing.
\<close>

definition create_bigquery_table ::
    "('w, 'j) bq \<Rightarrow> string \<Rightarrow> string \<Rightarrow> string \<Rightarrow> 'w state \<Rightarrow> (exn + string) \<times> 'w state" where
  "create_bigquery_table c project_id dataset_id table_id st =
     (let (w, ev) = st;
          (r0, w0) = bq_Client c project_id w;
          ev0 = ev @ [NewClient project_id]
      in case r0 of
           Some e \<Rightarrow> (Inl (LibraryError e), (w0, ev0))
         | None \<Rightarrow>
             let table_ref = table_ref_of project_id dataset_id table_id
             in case bq_Table c table_ref of
                  Some e \<Rightarrow> (Inl (LibraryError e), (w0, ev0))
                | None \<Rightarrow>
                    let (r1, w1) = delete_table c table_ref w0;
                        ev1 = ev0 @ [DeleteTable table_ref] @
                              (case r1 of
                                 None \<Rightarrow> [Print [Txt ''Deleted existing table '', Txt table_ref]]
                               | Some _ \<Rightarrow> []);
                        (r2, w2) = create_table c table_ref table_schema w1;
                        ev2 = ev1 @ [CreateTable table_ref table_schema]
                    in case r2 of
                         Some e \<Rightarrow> (Inl (LibraryError e), (w2, ev2))
                       | None \<Rightarrow>
                           (Inr table_ref,
                            (w2, ev2 @ [Print [Txt ''Created table '', Txt table_ref]])))"

subsection \<open>The bulk loader: \<open>load_data_to_bigquery\<close>\<close>

definition load_job_config :: job_config where
  "load_job_config = \<lparr>schema = table_schema, write_disposition = WRITE_TRUNCATE\<rparr>"

definition load_data_to_bigquery ::
    "('w, 'j) bq \<Rightarrow> string \<Rightarrow> string \<Rightarrow> string \<Rightarrow> journal list \<Rightarrow> 'w state \<Rightarrow> (exn + unit) \<times> 'w state" where
  "load_data_to_bigquery c project_id dataset_id table_id journals_data st =
     (let (w, ev) = st;
          (r0, w0) = bq_Client c project_id w;
          ev0 = ev @ [NewClient project_id]
      in case r0 of
           Some e \<Rightarrow> (Inl (LibraryError e), (w0, ev0))
         | None \<Rightarrow>
             let table_ref = table_ref_of project_id dataset_id table_id;
                 (r1, w1) = load_table_from_json c journals_data table_ref load_job_config w0;
                 ev1 = ev0 @ [LoadTableFromJson journals_data table_ref load_job_config]
             in case r1 of
                  Inl e \<Rightarrow> (Inl (LibraryError e), (w1, ev1))
                | Inr job \<Rightarrow>
                    let (r2, w2) = job_result c job w1;
                        ev2 = ev1 @ [JobResult]
                    in case r2 of
                         Some e \<Rightarrow> (Inl (LibraryError e), (w2, ev2))
                       | None \<Rightarrow>
                           let (r3, w3) = get_table c table_ref w2;
                               ev3 = ev2 @ [GetTable table_ref]
                           in case r3 of
                                Inl e \<Rightarrow> (Inl (LibraryError e), (w3, ev3))
                              | Inr num_rows \<Rightarrow>
                                  (Inr (),
                                   (w3, ev3 @ [Print [Txt ''Loaded '', Num num_rows,
                                                      Txt '' rows into '', Txt table_ref]])))"

subsection \<open>The entry point: \<open>main\<close>\<close>

text \<open>The arguments after \<open>parse_args\<close>.\<close>

record args =
  project_id :: string
  dataset_id :: string
  table_id :: string
  csv_file :: string

text \<open>\<open>os.path.exists\<close>\<close>

definition path_exists :: "file_system \<Rightarrow> string \<Rightarrow> bool" where
  "path_exists fs p = (fs p \<noteq> Missing)"

text \<open>The lines about the sample, one for each of the first five entries.\<close>

definition sample_lines :: "journal list \<Rightarrow> event list" where
  "sample_lines journals =
     map (\<lambda>j. Print [Txt ''  '', Txt (title j), Txt '': '', Flt (sjr j)]) (take 5 journals)"

definition done_lines :: "args \<Rightarrow> event list" where
  "done_lines a =
     [Print [Txt [CHR 0x0A], Txt ''Done! Journal data has been loaded into BigQuery.''],
      Print [Txt [CHR 0x0A], Txt ''To update your application to use this new table:''],
      Print [Txt ''1. Update the query in fetch_journal_impact_data() in main.py to use '',
             Txt [CHR 0x27], Txt (table_id a), Txt [CHR 0x27],
             Txt '' instead of '', Txt [CHR 0x27], Txt ''scimagojr_2023'', Txt [CHR 0x27]],
      Print [Txt ''2. Redeploy the Cloud Function'']]"

definition main :: "file_system \<Rightarrow> ('w, 'j) bq \<Rightarrow> args \<Rightarrow> 'w state \<Rightarrow> (exn + unit) \<times> 'w state" where
  "main fs c a st =
     (let (w, ev) = st
      in if \<not> path_exists fs (csv_file a) then
           (Inl (SystemExit 1),
            (w, ev @ [Print [Txt ''Error: CSV file '', Txt [CHR 0x27], Txt (csv_file a),
                             Txt [CHR 0x27], Txt '' not found'']]))
         else
           let ev1 = ev @ [Print [Txt ''Processing CSV file: '', Txt (csv_file a)]]
           in case process_scimagojr_csv fs (csv_file a) ev1 of
                (Inl e, ev2) \<Rightarrow> (Inl e, (w, ev2))
              | (Inr journals, ev2) \<Rightarrow>
                  let ev3 = ev2 @ [Print [Txt ''Extracted '', Num (length journals),
                                          Txt '' journal entries''],
                                   Print [Txt [CHR 0x0A], Txt ''Sample data (first 5 entries):'']]
                                @ sample_lines journals
                                @ [Print [Txt [CHR 0x0A], Txt ''Creating BigQuery table...'']]
                  in case create_bigquery_table c (project_id a) (dataset_id a) (table_id a) (w, ev3) of
                       (Inl e, st4) \<Rightarrow> (Inl e, st4)
                     | (Inr _, (w4, ev4)) \<Rightarrow>
                         (case load_data_to_bigquery c (project_id a) (dataset_id a) (table_id a)
                                 journals (w4, ev4 @ [Print [Txt ''Loading data into BigQuery...'']]) of
                            (Inl e, st5) \<Rightarrow> (Inl e, st5)
                          | (Inr _, (w5, ev5)) \<Rightarrow> (Inr (), (w5, ev5 @ done_lines a))))"

text \<open>
  The exit status of the process: the status of \<open>sys.exit\<close>, 1 for any other uncaught
  exception, 0 when \<open>main\<close> returns.
\<close>

fun exit_status :: "exn + unit \<Rightarrow> nat" where
  "exit_status (Inr _) = 0"
| "exit_status (Inl (SystemExit n)) = n"
| "exit_status (Inl _) = 1"

text \<open>Whether an event is a call of the warehouse client.\<close>

fun is_client_call :: "event \<Rightarrow> bool" where
  "is_client_call (Print _) = False"
| "is_client_call (OpenFile _) = False"
| "is_client_call _ = True"

subsection \<open>An in-memory warehouse\<close>

text \<open>
  A client on which the script can be run: the remote state is the list of the tables
  with their rows, a load job is the request itself, and the job is carried out when
  its result is awaited. Deleting a table that is absent and creating one that is
  present fail. \<open>keep\<close> says which of the rows sent the warehouse stores: all of them
  for \<open>mem_client\<close>.
\<close>

type_synonym store = "(string \<times> journal list) list"

definition store_put :: "string \<Rightarrow> journal list \<Rightarrow> store \<Rightarrow> store" where
  "store_put r rows w = (r, rows) # filter (\<lambda>kv. fst kv \<noteq> r) w"

definition store_client ::
    "(journal list \<Rightarrow> journal list) \<Rightarrow> (store, journal list \<times> string \<times> write_disposition) bq" where
  "store_client keep =
     \<lparr>bq_Client = (\<lambda>_ w. (None, w)),
      bq_Table = (\<lambda>_. None),
      delete_table = (\<lambda>r w. if map_of w r = None then (Some ''NotFound'', w)
                             else (None, filter (\<lambda>kv. fst kv \<noteq> r) w)),
      create_table = (\<lambda>r _ w. if map_of w r = None then (None, store_put r [] w)
                               else (Some ''Conflict'', w)),
      load_table_from_json = (\<lambda>rows r cfg w. (Inr (rows, r, write_disposition cfg), w)),
      job_result = (\<lambda>job w.
         case job of (rows, r, d) \<Rightarrow>
           (case d of
              WRITE_TRUNCATE \<Rightarrow> (None, store_put r (keep rows) w)
            | WRITE_APPEND \<Rightarrow>
                (None, store_put r ((case map_of w r of None \<Rightarrow> [] | Some old \<Rightarrow> old) @ keep rows) w)
            | WRITE_EMPTY \<Rightarrow>
                (case map_of w r of
                   None \<Rightarrow> (None, store_put r (keep rows) w)
                 | Some [] \<Rightarrow> (None, store_put r (keep rows) w)
                 | Some (_ # _) \<Rightarrow> (Some ''Conflict'', w)))),
      get_table = (\<lambda>r w. case map_of w r of
                            None \<Rightarrow> (Inl ''NotFound'', w)
                          | Some rows \<Rightarrow> (Inr (length rows), w))\<rparr>"

definition mem_client :: "(store, journal list \<times> string \<times> write_disposition) bq" where
  "mem_client = store_client (\<lambda>rows. rows)"

text \<open>
  A client whose constructors work and whose every remote call is refused, as for an
  account without permissions.
\<close>

definition denied_client :: "(unit, unit) bq" where
  "denied_client =
     \<lparr>bq_Client = (\<lambda>_ w. (None, w)),
      bq_Table = (\<lambda>_. None),
      delete_table = (\<lambda>_ w. (Some ''Forbidden'', w)),
      create_table = (\<lambda>_ _ w. (Some ''Forbidden'', w)),
      load_table_from_json = (\<lambda>_ _ _ w. (Inl ''Forbidden'', w)),
      job_result = (\<lambda>_ w. (Some ''Forbidden'', w)),
      get_table = (\<lambda>_ w. (Inl ''Forbidden'', w))\<rparr>"

section \<open>Properties\<close>

subsection \<open>Evaluating the float model\<close>

text \<open>
  The recursive equation of \<open>bitlen\<close> is not a simplification rule; these three
  evaluate it on numerals.
\<close>

lemma bitlen_0 [simp]: "bitlen 0 = 0"
  by (simp add: bitlen.simps)

lemma bitlen_Suc_0 [simp]: "bitlen (Suc 0) = Suc 0"
  by (simp add: bitlen.simps)

lemma bitlen_numeral [simp]: "bitlen (numeral k) = Suc (bitlen (numeral k div 2))"
  by (subst bitlen.simps) simp

subsection \<open>The loop over the rows\<close>

text \<open>
  One turn of the loop: a row without a record raises, and a row with a record
  appends it, with a warning when the score did not parse.
\<close>

lemma row_loop_step:
  "row_loop (row # rows) journals ev =
     (case journal_of_row row of
        None \<Rightarrow> (Inl (case row ''Title'' of None \<Rightarrow> KeyError ''Title''
                       | Some PyNone \<Rightarrow> AttributeError
                       | Some (Str _) \<Rightarrow> (case row ''SJR'' of None \<Rightarrow> KeyError ''SJR'' | _ \<Rightarrow> AttributeError)), ev)
      | Some j \<Rightarrow>
          row_loop rows (journals @ [j])
            (ev @ (case row ''SJR'' of
                     Some (Str s) \<Rightarrow>
                       (if float_py (replace_comma (strip s)) = None then [warning (strip s) (title j)] else [])
                   | _ \<Rightarrow> [])))"
  by (simp add: journal_of_row_def getitem_def strip_method_def sjr_of_def
           split: option.splits cell.splits)

declare row_loop.simps(2) [simp del]

lemma row_loop_Inr:
  "row_loop ds js ev = (Inr js', ev') \<Longrightarrow> map Some js' = map Some js @ map journal_of_row ds"
proof (induction ds arbitrary: js ev)
  case Nil
  then show ?case by simp
next
  case (Cons d ds)
  show ?case
  proof (cases "journal_of_row d")
    case None
    with Cons.prems show ?thesis by (simp add: row_loop_step)
  next
    case (Some j)
    with Cons.prems obtain ev1 where "row_loop ds (js @ [j]) ev1 = (Inr js', ev')"
      by (auto simp: row_loop_step)
    from Cons.IH [OF this] Some show ?thesis by simp
  qed
qed

lemma row_loop_Inl:
  "d \<in> set ds \<Longrightarrow> journal_of_row d = None \<Longrightarrow>
   \<exists>e ev'. row_loop ds js ev = (Inl e, ev') \<and> e \<in> {KeyError ''Title'', KeyError ''SJR'', AttributeError}"
proof (induction ds arbitrary: js ev)
  case Nil
  then show ?case by simp
next
  case (Cons x xs)
  show ?case
  proof (cases "journal_of_row x")
    case None
    then show ?thesis
      by (simp add: row_loop_step split: option.splits cell.splits)
  next
    case (Some j)
    with Cons.prems have "d \<in> set xs" by auto
    from Cons.IH [OF this Cons.prems(2)] Some show ?thesis
      by (simp add: row_loop_step)
  qed
qed

lemma row_loop_append:
  "row_loop pre js ev = (Inr js1, ev1) \<Longrightarrow> row_loop (pre @ post) js ev = row_loop post js1 ev1"
proof (induction pre arbitrary: js ev)
  case Nil
  then show ?case by simp
next
  case (Cons d ds)
  show ?case
  proof (cases "journal_of_row d")
    case None
    with Cons.prems show ?thesis by (simp add: row_loop_step)
  next
    case (Some j)
    with Cons.prems Cons.IH show ?thesis
      by (simp add: row_loop_step)
  qed
qed

lemma row_loop_total:
  "\<forall>d \<in> set ds. journal_of_row d \<noteq> None \<Longrightarrow> \<exists>js' ev'. row_loop ds js ev = (Inr js', ev')"
proof (induction ds arbitrary: js ev)
  case Nil
  then show ?case by simp
next
  case (Cons d ds)
  then obtain j where "journal_of_row d = Some j" by auto
  with Cons show ?case by (simp add: row_loop_step)
qed

subsection \<open>Rows as dictionaries\<close>

lemma foldl_none:
  "foldl (\<lambda>d key. d(key \<mapsto> PyNone)) d ks k = (if k \<in> set ks then Some PyNone else d k)"
  by (induction ks arbitrary: d) auto

lemma make_row_absent:
  assumes "k \<notin> set (take (length r) hdr) \<or> k \<in> set (drop (length r) hdr)"
  shows "make_row hdr r k \<noteq> Some (Str t)"
proof -
  have z: "map fst (zip hdr (map Str r)) = take (length r) hdr"
    by (simp add: map_fst_zip_take min_def)
  have n: "k \<notin> set (take (length r) hdr) \<Longrightarrow> map_of (rev (zip hdr (map Str r))) k = None"
    using z by (simp add: map_of_eq_None_iff flip: set_map)
  show ?thesis
  proof (cases "k \<in> set (drop (length r) hdr)")
    case True
    then have "length r < length hdr" by (cases "length r < length hdr") auto
    with True show ?thesis by (simp add: make_row_def foldl_none Let_def)
  next
    case False
    with assms n show ?thesis by (simp add: make_row_def foldl_none Let_def)
  qed
qed

subsection \<open>Trimming\<close>

lemma strip_decomp:
  "\<exists>pre post. s = pre @ strip s @ post \<and> (\<forall>c \<in> set pre. py_isspace c) \<and> (\<forall>c \<in> set post. py_isspace c)"
proof -
  let ?a = "dropWhile py_isspace s"
  have 1: "s = takeWhile py_isspace s @ ?a" by simp
  have 2: "rev ?a = takeWhile py_isspace (rev ?a) @ dropWhile py_isspace (rev ?a)" by simp
  then have "?a = rev (dropWhile py_isspace (rev ?a)) @ rev (takeWhile py_isspace (rev ?a))"
    by (metis rev_append rev_rev_ident)
  then have "s = takeWhile py_isspace s @ strip s @ rev (takeWhile py_isspace (rev ?a))"
    using 1 by (simp add: strip_def)
  moreover have "\<forall>c \<in> set (takeWhile py_isspace s). py_isspace c"
    by (meson set_takeWhileD)
  moreover have "\<forall>c \<in> set (rev (takeWhile py_isspace (rev ?a))). py_isspace c"
    by (metis set_rev set_takeWhileD)
  ultimately show ?thesis by blast
qed

lemma strip_ends:
  "strip s \<noteq> [] \<Longrightarrow> \<not> py_isspace (hd (strip s)) \<and> \<not> py_isspace (last (strip s))"
proof -
  assume ne: "strip s \<noteq> []"
  let ?a = "dropWhile py_isspace s"
  let ?b = "dropWhile py_isspace (rev ?a)"
  from ne have b: "?b \<noteq> []" by (simp add: strip_def)
  then have "\<not> py_isspace (hd ?b)" by (rule hd_dropWhile)
  then have l: "\<not> py_isspace (last (strip s))" using b by (simp add: strip_def last_rev)
  from b have a: "?a \<noteq> []" by (cases "?a = []") simp_all
  then have ha: "\<not> py_isspace (hd ?a)" by (rule hd_dropWhile)
  have "hd (strip s) = hd ?a"
  proof -
    have "rev ?a = takeWhile py_isspace (rev ?a) @ ?b" by simp
    then have "?a = rev ?b @ rev (takeWhile py_isspace (rev ?a))"
      by (metis rev_append rev_rev_ident)
    then have "hd ?a = hd (rev ?b)" using b by (metis hd_append2 rev_is_Nil_conv)
    then show ?thesis by (simp add: strip_def)
  qed
  with ha l show ?thesis by simp
qed

subsection \<open>Concrete inputs\<close>

text \<open>The definitions that evaluate a run on a concrete input, and some floats.\<close>

lemmas strtod_eval = strtod_def is_digit_def digits_val_def digit_val_def
lemmas round_eval = round_double_def floor_log2_def div_half_even_def
lemmas float_eval = float_py_def float_isspace_def is_digit_def parse_inf_or_nan_def to_lower_def
lemmas csv_eval = process_scimagojr_csv_def one_file_def dict_reader_def data_rows_def make_row_def
  row_loop_step journal_of_row_def sjr_of_def strip_def py_isspace_def replace_comma_def warning_def

lemma float_14_1: "float_py ''14.1'' = Some (Finite (7937594343240499 / 562949953421312))"
proof -
  have "strtod ''14.1'' = Some (round_double False 141 (- 1), [])"
    by (simp add: strtod_eval)
  moreover have "round_double False 141 (- 1) = Finite (7937594343240499 / 562949953421312)"
    by (simp add: round_eval)
  ultimately show ?thesis
    by (simp add: float_eval)
qed

lemma float_1_234: "float_py ''1.234'' = Some (Finite (694680242521899 / 562949953421312))"
proof -
  have "strtod ''1.234'' = Some (round_double False 1234 (- 3), [])"
    by (simp add: strtod_eval)
  moreover have "round_double False 1234 (- 3) = Finite (694680242521899 / 562949953421312)"
    by (simp add: round_eval)
  ultimately show ?thesis
    by (simp add: float_eval)
qed

lemma float_2_5: "float_py ''2.5'' = Some (Finite (5 / 2))"
proof -
  have "strtod ''2.5'' = Some (round_double False 25 (- 1), [])"
    by (simp add: strtod_eval)
  moreover have "round_double False 25 (- 1) = Finite (5 / 2)"
    by (simp add: round_eval)
  ultimately show ?thesis
    by (simp add: float_eval)
qed

lemma float_NA: "float_py ''N/A'' = None"
  by (simp add: float_eval strtod_eval)

lemma float_inf: "float_py ''inf'' = Some PosInf"
  by (simp add: float_eval strtod_eval)

subsection \<open>The records of a run of the extractor\<close>

lemma process_Inr:
  assumes "process_scimagojr_csv fs p ev = (Inr journals, ev')" and "fs p = Readable rows"
  shows "map Some journals = map journal_of_row (dict_reader rows)"
  using assms row_loop_Inr [of "dict_reader rows" "[]" "ev @ [OpenFile p]" journals ev']
  by (simp add: process_scimagojr_csv_def)

lemma process_nth:
  assumes "process_scimagojr_csv fs p ev = (Inr journals, ev')" and "fs p = Readable rows"
    and "i < length journals"
  shows "journal_of_row (dict_reader rows ! i) = Some (journals ! i)"
proof -
  have m: "map Some journals = map journal_of_row (dict_reader rows)"
    using assms(1,2) by (rule process_Inr)
  then have "length journals = length (dict_reader rows)"
    by (metis length_map)
  with assms(3) have "map journal_of_row (dict_reader rows) ! i = journal_of_row (dict_reader rows ! i)"
    by simp
  moreover have "map Some journals ! i = Some (journals ! i)"
    using assms(3) by simp
  ultimately show ?thesis using m by simp
qed

lemma journal_of_row_Some:
  "journal_of_row row = Some j \<Longrightarrow>
   \<exists>t s. row ''Title'' = Some (Str t) \<and> row ''SJR'' = Some (Str s) \<and>
         j = \<lparr>title = strip t, sjr = sjr_of s\<rparr>"
  by (auto simp: journal_of_row_def split: option.splits cell.splits)

section \<open>The claims\<close>

text \<open>
  C1. For every data row whose SJR field, trimmed and with every comma replaced by a
  period, is read by \<open>float\<close> as a number, the \<open>sjr\<close> of the record of that row is
  exactly that float. The row \<open>Cell;14,1\<close> gives the double \<open>14.1\<close>, which is
  \<open>7937594343240499 / 2 ^ 49\<close>.
\<close>

theorem sjr_is_parsed_float:
  assumes "process_scimagojr_csv fs p ev = (Inr journals, ev')"
    and "fs p = Readable rows"
    and "i < length journals"
    and "(dict_reader rows ! i) ''SJR'' = Some (Str s)"
    and "float_py (replace_comma (strip s)) = Some x"
  shows "sjr (journals ! i) = x"
proof -
  have "journal_of_row (dict_reader rows ! i) = Some (journals ! i)"
    using assms(1-3) by (rule process_nth)
  from journal_of_row_Some [OF this] assms(4) have "journals ! i = \<lparr>title = title (journals ! i), sjr = sjr_of s\<rparr>"
    by auto
  then have "sjr (journals ! i) = sjr_of s"
    by (metis journal.select_convs(2))
  with assms(5) show ?thesis by (simp add: sjr_of_def)
qed

theorem sjr_is_parsed_float_witness:
  "process_scimagojr_csv (one_file ''scimagojr_2024.csv'' [[''Title'', ''SJR''], [''Cell'', ''14,1'']])
       ''scimagojr_2024.csv'' []
     = (Inr [\<lparr>title = ''Cell'', sjr = Finite (7937594343240499 / 562949953421312)\<rparr>],
        [OpenFile ''scimagojr_2024.csv''])
   \<and> float_py (replace_comma (strip ''14,1'')) = Some (Finite (7937594343240499 / 562949953421312))
   \<and> sjr ([\<lparr>title = ''Cell'', sjr = Finite (7937594343240499 / 562949953421312)\<rparr>] ! 0)
       = Finite (7937594343240499 / 562949953421312)"
proof -
  let ?rows = "[[''Title'', ''SJR''], [''Cell'', ''14,1'']]"
  let ?fs = "one_file ''scimagojr_2024.csv'' ?rows"
  let ?x = "Finite (7937594343240499 / 562949953421312)"
  let ?js = "[\<lparr>title = ''Cell'', sjr = ?x\<rparr>]"
  have h5: "float_py (replace_comma (strip ''14,1'')) = Some ?x"
    by (simp add: strip_def py_isspace_def replace_comma_def float_14_1)
  have h1: "process_scimagojr_csv ?fs ''scimagojr_2024.csv'' [] = (Inr ?js, [OpenFile ''scimagojr_2024.csv''])"
    by (simp add: csv_eval float_14_1)
  have h2: "?fs ''scimagojr_2024.csv'' = Readable ?rows"
    by (simp add: one_file_def)
  have h3: "0 < length ?js"
    by simp
  have h4: "(dict_reader ?rows ! 0) ''SJR'' = Some (Str ''14,1'')"
    by (simp add: dict_reader_def data_rows_def make_row_def)
  from sjr_is_parsed_float [OF h1 h2 h3 h4 h5] h1 h5 show ?thesis
    by simp
qed

text \<open>
  C2. When the SJR field of a data row does not parse, and the rows before it were
  processed, the extractor prints a warning that holds the trimmed SJR text and the
  title, appends a record whose \<open>sjr\<close> is \<open>0.0\<close>, and goes on with the rows after it:
  the run is the loop over the remaining rows. It returns its records, without an
  exception, when each of the remaining rows has a Title and an SJR field.
\<close>

theorem malformed_sjr_warns_and_continues:
  assumes "fs p = Readable rows"
    and "dict_reader rows = pre @ row # post"
    and "row_loop pre [] (ev @ [OpenFile p]) = (Inr js1, ev1)"
    and "row ''Title'' = Some (Str t)"
    and "row ''SJR'' = Some (Str s)"
    and "float_py (replace_comma (strip s)) = None"
  shows "process_scimagojr_csv fs p ev =
           row_loop post (js1 @ [\<lparr>title = strip t, sjr = Finite 0\<rparr>])
             (ev1 @ [Print [Txt ''Warning: Could not parse SJR value '', Txt [CHR 0x27],
                            Txt (strip s), Txt [CHR 0x27], Txt '' for journal '',
                            Txt [CHR 0x27], Txt (strip t), Txt [CHR 0x27]]])
         \<and> ((\<forall>d \<in> set post. journal_of_row d \<noteq> None) \<longrightarrow>
              (\<exists>js ev'. process_scimagojr_csv fs p ev = (Inr js, ev')))"
proof -
  have "row_loop (pre @ row # post) [] (ev @ [OpenFile p]) = row_loop (row # post) js1 ev1"
    using assms(3) by (rule row_loop_append)
  also have "\<dots> = row_loop post (js1 @ [\<lparr>title = strip t, sjr = Finite 0\<rparr>])
                      (ev1 @ [warning (strip s) (strip t)])"
    using assms(4-6) by (simp add: row_loop_step journal_of_row_def sjr_of_def)
  finally have "process_scimagojr_csv fs p ev =
           row_loop post (js1 @ [\<lparr>title = strip t, sjr = Finite 0\<rparr>])
             (ev1 @ [warning (strip s) (strip t)])"
    using assms(1,2) by (simp add: process_scimagojr_csv_def)
  then show ?thesis
    using row_loop_total [of post "js1 @ [\<lparr>title = strip t, sjr = Finite 0\<rparr>]"
                            "ev1 @ [warning (strip s) (strip t)]"]
    by (simp add: warning_def)
qed

theorem malformed_sjr_warns_and_continues_witness:
  "process_scimagojr_csv
       (one_file ''j.csv'' [[''Title'', ''SJR''], [''Acta'', ''N/A''], [''Brain'', ''2,5'']]) ''j.csv'' []
     = (Inr [\<lparr>title = ''Acta'', sjr = Finite 0\<rparr>, \<lparr>title = ''Brain'', sjr = Finite (5 / 2)\<rparr>],
        [OpenFile ''j.csv'',
         Print [Txt ''Warning: Could not parse SJR value '', Txt [CHR 0x27], Txt ''N/A'',
                Txt [CHR 0x27], Txt '' for journal '', Txt [CHR 0x27], Txt ''Acta'',
                Txt [CHR 0x27]]])"
proof -
  let ?hdr = "[''Title'', ''SJR'']"
  let ?rows = "[?hdr, [''Acta'', ''N/A''], [''Brain'', ''2,5'']]"
  have h1: "one_file ''j.csv'' ?rows ''j.csv'' = Readable ?rows"
    by (simp add: one_file_def)
  have h2: "dict_reader ?rows = [] @ make_row ?hdr [''Acta'', ''N/A''] # [make_row ?hdr [''Brain'', ''2,5'']]"
    by (simp add: dict_reader_def data_rows_def)
  have h3: "row_loop [] [] ([] @ [OpenFile ''j.csv'']) = (Inr [], [OpenFile ''j.csv''])"
    by simp
  have h4: "make_row ?hdr [''Acta'', ''N/A''] ''Title'' = Some (Str ''Acta'')"
    by (simp add: make_row_def)
  have h5: "make_row ?hdr [''Acta'', ''N/A''] ''SJR'' = Some (Str ''N/A'')"
    by (simp add: make_row_def)
  have h6: "float_py (replace_comma (strip ''N/A'')) = None"
    by (simp add: strip_def py_isspace_def replace_comma_def float_NA)
  have s: "strip ''N/A'' = ''N/A''" "strip ''Acta'' = ''Acta''"
    by (simp_all add: strip_def py_isspace_def)
  from malformed_sjr_warns_and_continues
         [where fs = "one_file ''j.csv'' ?rows" and p = "''j.csv''" and ev = "[]", OF h1 h2 h3 h4 h5 h6]
  show ?thesis
    by (simp add: s row_loop_step journal_of_row_def sjr_of_def make_row_def strip_def
          py_isspace_def replace_comma_def float_2_5)
qed

text \<open>
  C5. On a run that returns, the title of the record of every data row is the Title
  field of that row without the whitespace at its two ends: the field is whitespace,
  then the title, then whitespace, and the title neither begins nor ends with
  whitespace.
\<close>

theorem title_is_trimmed:
  assumes "process_scimagojr_csv fs p ev = (Inr journals, ev')"
    and "fs p = Readable rows"
    and "i < length journals"
  shows "\<exists>t pre post.
           (dict_reader rows ! i) ''Title'' = Some (Str t) \<and>
           title (journals ! i) = strip t \<and>
           t = pre @ strip t @ post \<and>
           (\<forall>c \<in> set pre. py_isspace c) \<and> (\<forall>c \<in> set post. py_isspace c) \<and>
           (strip t = [] \<or> \<not> py_isspace (hd (strip t)) \<and> \<not> py_isspace (last (strip t)))"
proof -
  have "journal_of_row (dict_reader rows ! i) = Some (journals ! i)"
    using assms by (rule process_nth)
  from journal_of_row_Some [OF this] obtain t s where
    t: "(dict_reader rows ! i) ''Title'' = Some (Str t)"
    and j: "journals ! i = \<lparr>title = strip t, sjr = sjr_of s\<rparr>"
    by blast
  from j have "title (journals ! i) = strip t"
    by simp
  moreover obtain pre post where "t = pre @ strip t @ post"
    "\<forall>c \<in> set pre. py_isspace c" "\<forall>c \<in> set post. py_isspace c"
    using strip_decomp [of t] by blast
  moreover have "strip t = [] \<or> \<not> py_isspace (hd (strip t)) \<and> \<not> py_isspace (last (strip t))"
    using strip_ends [of t] by blast
  ultimately show ?thesis
    using t by blast
qed

theorem title_is_trimmed_witness:
  "process_scimagojr_csv
       (one_file ''j.csv'' [[''Title'', ''SJR''], [''  Nature Reviews  '', ''1,234'']]) ''j.csv'' []
     = (Inr [\<lparr>title = ''Nature Reviews'', sjr = Finite (694680242521899 / 562949953421312)\<rparr>],
        [OpenFile ''j.csv''])
   \<and> (\<exists>t. (dict_reader [[''Title'', ''SJR''], [''  Nature Reviews  '', ''1,234'']] ! 0) ''Title''
             = Some (Str t)
          \<and> t = ''  Nature Reviews  ''
          \<and> title ([\<lparr>title = ''Nature Reviews'',
                       sjr = Finite (694680242521899 / 562949953421312)\<rparr>] ! 0) = strip t)"
proof -
  let ?rows = "[[''Title'', ''SJR''], [''  Nature Reviews  '', ''1,234'']]"
  let ?js = "[\<lparr>title = ''Nature Reviews'', sjr = Finite (694680242521899 / 562949953421312)\<rparr>]"
  have h1: "process_scimagojr_csv (one_file ''j.csv'' ?rows) ''j.csv'' [] = (Inr ?js, [OpenFile ''j.csv''])"
    by (simp add: csv_eval float_1_234)
  have h2: "one_file ''j.csv'' ?rows ''j.csv'' = Readable ?rows"
    by (simp add: one_file_def)
  have h3: "0 < length ?js"
    by simp
  have d: "(dict_reader ?rows ! 0) ''Title'' = Some (Str ''  Nature Reviews  '')"
    by (simp add: dict_reader_def data_rows_def make_row_def)
  from title_is_trimmed [OF h1 h2 h3] obtain t where
    "(dict_reader ?rows ! 0) ''Title'' = Some (Str t)" "title (?js ! 0) = strip t"
    by blast
  with d h1 show ?thesis
    by auto
qed

text \<open>
  C7. On a run that returns, the extractor gives one record for each data row (a
  row after the header that is not an empty line), in the order of the file: there
  are as many records as data rows, and the record at position \<open>i\<close> is the record of
  the data row at position \<open>i\<close>. A row whose score does not parse keeps its place,
  with the score \<open>0.0\<close>.
\<close>

theorem one_record_per_data_row:
  assumes "process_scimagojr_csv fs p ev = (Inr journals, ev')"
    and "fs p = Readable rows"
  shows "length journals = length (data_rows rows) \<and>
         (\<forall>i < length journals.
            journal_of_row (make_row (hd rows) (data_rows rows ! i)) = Some (journals ! i))"
proof -
  have m: "map Some journals = map journal_of_row (dict_reader rows)"
    using assms by (rule process_Inr)
  have d: "dict_reader rows = map (make_row (hd rows)) (data_rows rows)"
    by (cases rows) (simp_all add: dict_reader_def data_rows_def)
  from m have l: "length journals = length (dict_reader rows)"
    by (metis length_map)
  with d have len: "length journals = length (data_rows rows)"
    by simp
  have "journal_of_row (make_row (hd rows) (data_rows rows ! i)) = Some (journals ! i)"
    if "i < length journals" for i
  proof -
    have "journal_of_row (dict_reader rows ! i) = Some (journals ! i)"
      using assms that by (rule process_nth)
    with d len that show ?thesis
      by simp
  qed
  with len show ?thesis
    by blast
qed

theorem one_record_per_data_row_witness:
  "process_scimagojr_csv
       (one_file ''j.csv'' [[''Title'', ''SJR''], [''Acta'', ''N/A''], [], [''Brain'', ''2,5'']]) ''j.csv'' []
     = (Inr [\<lparr>title = ''Acta'', sjr = Finite 0\<rparr>, \<lparr>title = ''Brain'', sjr = Finite (5 / 2)\<rparr>],
        [OpenFile ''j.csv'', warning ''N/A'' ''Acta''])
   \<and> data_rows [[''Title'', ''SJR''], [''Acta'', ''N/A''], [], [''Brain'', ''2,5'']]
       = [[''Acta'', ''N/A''], [''Brain'', ''2,5'']]
   \<and> journal_of_row (make_row [''Title'', ''SJR''] [''Brain'', ''2,5''])
       = Some \<lparr>title = ''Brain'', sjr = Finite (5 / 2)\<rparr>"
proof -
  let ?rows = "[[''Title'', ''SJR''], [''Acta'', ''N/A''], [], [''Brain'', ''2,5'']]"
  let ?js = "[\<lparr>title = ''Acta'', sjr = Finite 0\<rparr>, \<lparr>title = ''Brain'', sjr = Finite (5 / 2)\<rparr>]"
  have h1: "process_scimagojr_csv (one_file ''j.csv'' ?rows) ''j.csv'' []
              = (Inr ?js, [OpenFile ''j.csv'', warning ''N/A'' ''Acta''])"
    by (simp add: csv_eval float_NA float_2_5)
  have h2: "one_file ''j.csv'' ?rows ''j.csv'' = Readable ?rows"
    by (simp add: one_file_def)
  have d: "data_rows ?rows = [[''Acta'', ''N/A''], [''Brain'', ''2,5'']]"
    by (simp add: data_rows_def)
  from one_record_per_data_row [OF h1 h2]
  have "journal_of_row (make_row (hd ?rows) (data_rows ?rows ! 1)) = Some (?js ! 1)"
    by simp
  with h1 d show ?thesis
    by simp
qed

text \<open>
  C3, as stated, fails: \<open>float\<close> reads the text \<open>inf\<close> as an infinity and raises
  nothing, so the record of the row \<open>X;inf\<close> has an \<open>sjr\<close> that is not finite.
\<close>

theorem sjr_not_finite_counterexample:
  "process_scimagojr_csv (one_file ''j.csv'' [[''Title'', ''SJR''], [''X'', ''inf'']]) ''j.csv'' []
     = (Inr [\<lparr>title = ''X'', sjr = PosInf\<rparr>], [OpenFile ''j.csv''])
   \<and> \<not> is_finite (sjr \<lparr>title = ''X'', sjr = PosInf\<rparr>)"
  by (simp add: csv_eval float_inf)

text \<open>
  C3, amended. On a run that returns, every record has a title, the trimmed Title
  field of its row, and an \<open>sjr\<close> that is finite or is exactly the value that \<open>float\<close>
  returned for the trimmed SJR field with commas replaced: a record is not finite only
  when \<open>float\<close> itself reads the field as an infinity or a NaN. A field that does not
  parse gives the finite \<open>0.0\<close>.
\<close>

theorem record_has_title_and_float:
  assumes "process_scimagojr_csv fs p ev = (Inr journals, ev')"
    and "fs p = Readable rows"
    and "i < length journals"
  shows "\<exists>t s. (dict_reader rows ! i) ''Title'' = Some (Str t) \<and>
               (dict_reader rows ! i) ''SJR'' = Some (Str s) \<and>
               title (journals ! i) = strip t \<and>
               (is_finite (sjr (journals ! i)) \<or>
                float_py (replace_comma (strip s)) = Some (sjr (journals ! i)))"
proof -
  have "journal_of_row (dict_reader rows ! i) = Some (journals ! i)"
    using assms by (rule process_nth)
  from journal_of_row_Some [OF this] obtain t s where
    t: "(dict_reader rows ! i) ''Title'' = Some (Str t)"
    and s: "(dict_reader rows ! i) ''SJR'' = Some (Str s)"
    and j: "journals ! i = \<lparr>title = strip t, sjr = sjr_of s\<rparr>"
    by blast
  have "is_finite (sjr_of s) \<or> float_py (replace_comma (strip s)) = Some (sjr_of s)"
    by (cases "float_py (replace_comma (strip s))") (simp_all add: sjr_of_def)
  with t s j show ?thesis
    by auto
qed

theorem record_has_title_and_float_witness:
  "process_scimagojr_csv
       (one_file ''j.csv'' [[''Title'', ''SJR''], [''Acta'', ''N/A''], [''X'', ''inf'']]) ''j.csv'' []
     = (Inr [\<lparr>title = ''Acta'', sjr = Finite 0\<rparr>, \<lparr>title = ''X'', sjr = PosInf\<rparr>],
        [OpenFile ''j.csv'', warning ''N/A'' ''Acta''])
   \<and> float_py (replace_comma (strip ''inf'')) = Some PosInf
   \<and> (\<exists>t s. (dict_reader [[''Title'', ''SJR''], [''Acta'', ''N/A''], [''X'', ''inf'']] ! 1) ''SJR''
               = Some (Str s)
            \<and> title ([\<lparr>title = ''Acta'', sjr = Finite 0\<rparr>, \<lparr>title = ''X'', sjr = PosInf\<rparr>] ! 1)
               = strip t
            \<and> float_py (replace_comma (strip s)) = Some PosInf)"
proof -
  let ?rows = "[[''Title'', ''SJR''], [''Acta'', ''N/A''], [''X'', ''inf'']]"
  let ?js = "[\<lparr>title = ''Acta'', sjr = Finite 0\<rparr>, \<lparr>title = ''X'', sjr = PosInf\<rparr>]"
  have h1: "process_scimagojr_csv (one_file ''j.csv'' ?rows) ''j.csv'' []
              = (Inr ?js, [OpenFile ''j.csv'', warning ''N/A'' ''Acta''])"
    by (simp add: csv_eval float_NA float_inf)
  have h2: "one_file ''j.csv'' ?rows ''j.csv'' = Readable ?rows"
    by (simp add: one_file_def)
  have h3: "1 < length ?js"
    by simp
  have f: "float_py (replace_comma (strip ''inf'')) = Some PosInf"
    by (simp add: strip_def py_isspace_def replace_comma_def float_inf)
  from record_has_title_and_float [OF h1 h2 h3] obtain t s where
    "(dict_reader ?rows ! 1) ''SJR'' = Some (Str s)" "title (?js ! 1) = strip t"
    "is_finite (sjr (?js ! 1)) \<or> float_py (replace_comma (strip s)) = Some (sjr (?js ! 1))"
    by blast
  then have "(dict_reader ?rows ! 1) ''SJR'' = Some (Str s) \<and> title (?js ! 1) = strip t \<and>
             float_py (replace_comma (strip s)) = Some PosInf"
    by simp
  with h1 f show ?thesis
    by blast
qed

text \<open>
  C10, as stated, fails: a file that has only a header raises nothing, whatever the
  names in the header, because the names are looked up when a data row is processed.
  The header \<open>Name;Score\<close> alone gives the empty list of records.
\<close>

theorem header_only_counterexample:
  "process_scimagojr_csv (one_file ''j.csv'' [[''Name'', ''Score'']]) ''j.csv'' []
     = (Inr [], [OpenFile ''j.csv''])
   \<and> ''Title'' \<notin> set [''Name'', ''Score''] \<and> ''SJR'' \<notin> set [''Name'', ''Score'']"
  by (simp add: csv_eval)

text \<open>
  C10, amended. If the file has a data row in which the value of \<open>Title\<close> or of \<open>SJR\<close>
  is absent, because the header has no such name among the names that the row has
  fields for (so also when the header lacks the name altogether), or because the
  name stands beyond the end of the row, then the extractor raises \<open>KeyError\<close> or
  \<open>AttributeError\<close> and returns no records: the score \<open>0.0\<close> is never given to a
  missing field.
\<close>

theorem missing_field_raises:
  assumes "fs p = Readable (hdr # rest)"
    and "r \<in> set (data_rows (hdr # rest))"
    and "k = ''Title'' \<or> k = ''SJR''"
    and "k \<notin> set (take (length r) hdr) \<or> k \<in> set (drop (length r) hdr)"
  shows "\<exists>e ev'. process_scimagojr_csv fs p ev = (Inl e, ev') \<and>
                 e \<in> {KeyError ''Title'', KeyError ''SJR'', AttributeError}"
proof -
  have "make_row hdr r k \<noteq> Some (Str t)" for t
    using assms(4) by (rule make_row_absent)
  with assms(3) have "journal_of_row (make_row hdr r) = None"
    by (auto simp: journal_of_row_def split: option.splits cell.splits)
  moreover have "make_row hdr r \<in> set (dict_reader (hdr # rest))"
    using assms(2) by (simp add: dict_reader_def)
  ultimately have "\<exists>e ev'. row_loop (dict_reader (hdr # rest)) [] (ev @ [OpenFile p]) = (Inl e, ev') \<and>
                          e \<in> {KeyError ''Title'', KeyError ''SJR'', AttributeError}"
    by (rule row_loop_Inl [rotated])
  with assms(1) show ?thesis
    by (simp add: process_scimagojr_csv_def)
qed

theorem missing_field_raises_witness:
  "one_file ''j.csv'' [[''Title'', ''SJR''], [''Cell'']] ''j.csv'' = Readable [[''Title'', ''SJR''], [''Cell'']]
   \<and> [''Cell''] \<in> set (data_rows [[''Title'', ''SJR''], [''Cell'']])
   \<and> ''SJR'' \<in> set (drop (length [''Cell'']) [''Title'', ''SJR''])
   \<and> (\<exists>e ev'. process_scimagojr_csv (one_file ''j.csv'' [[''Title'', ''SJR''], [''Cell'']]) ''j.csv'' []
                  = (Inl e, ev') \<and>
                e \<in> {KeyError ''Title'', KeyError ''SJR'', AttributeError})"
proof -
  let ?rows = "[[''Title'', ''SJR''], [''Cell'']]"
  have h1: "one_file ''j.csv'' ?rows ''j.csv'' = Readable ([''Title'', ''SJR''] # [[''Cell'']])"
    by (simp add: one_file_def)
  have h2: "[''Cell''] \<in> set (data_rows ([''Title'', ''SJR''] # [[''Cell'']]))"
    by (simp add: data_rows_def)
  have h3: "''SJR'' = ''Title'' \<or> ''SJR'' = ''SJR''"
    by simp
  have h4: "''SJR'' \<notin> set (take (length [''Cell'']) [''Title'', ''SJR'']) \<or>
            ''SJR'' \<in> set (drop (length [''Cell'']) [''Title'', ''SJR''])"
    by simp
  from missing_field_raises [where fs = "one_file ''j.csv'' ?rows" and p = "''j.csv''" and ev = "[]",
         OF h1 h2 h3 h4] h1 h2
  show ?thesis
    by simp
qed

text \<open>
  C4. When nothing exists at the path given as \<open>--csv-file\<close>, \<open>main\<close> ends with
  \<open>sys.exit(1)\<close>: the exit status is not zero, the remote state is untouched, and the
  only event of the run is the error line, so no file was opened and parsed and no
  table was deleted or created.
\<close>

theorem missing_file_exits_before_any_work:
  assumes "fs (csv_file a) = Missing"
  shows "main fs c a (w, ev) =
           (Inl (SystemExit 1),
            (w, ev @ [Print [Txt ''Error: CSV file '', Txt [CHR 0x27], Txt (csv_file a),
                             Txt [CHR 0x27], Txt '' not found'']]))
         \<and> exit_status (fst (main fs c a (w, ev))) \<noteq> 0
         \<and> filter is_client_call (snd (snd (main fs c a (w, ev)))) = filter is_client_call ev
         \<and> OpenFile (csv_file a) \<notin> set (drop (length ev) (snd (snd (main fs c a (w, ev)))))"
  using assms by (simp add: main_def path_exists_def)

theorem missing_file_exits_before_any_work_witness:
  "one_file ''other.csv'' [[''Title'', ''SJR'']] ''scimagojr_2024.csv'' = Missing
   \<and> main (one_file ''other.csv'' [[''Title'', ''SJR'']]) mem_client
        \<lparr>project_id = ''proj'', dataset_id = ''journal_rank'', table_id = ''scimagojr_2024'',
         csv_file = ''scimagojr_2024.csv''\<rparr>
        ([(''proj.journal_rank.scimagojr_2024'', [\<lparr>title = ''Old'', sjr = Finite 1\<rparr>])], [])
     = (Inl (SystemExit 1),
        ([(''proj.journal_rank.scimagojr_2024'', [\<lparr>title = ''Old'', sjr = Finite 1\<rparr>])],
         [Print [Txt ''Error: CSV file '', Txt [CHR 0x27], Txt ''scimagojr_2024.csv'',
                 Txt [CHR 0x27], Txt '' not found'']]))"
proof -
  let ?a = "\<lparr>project_id = ''proj'', dataset_id = ''journal_rank'', table_id = ''scimagojr_2024'',
             csv_file = ''scimagojr_2024.csv''\<rparr>"
  have h: "one_file ''other.csv'' [[''Title'', ''SJR'']] (csv_file ?a) = Missing"
    by (simp add: one_file_def)
  from missing_file_exits_before_any_work
         [where fs = "one_file ''other.csv'' [[''Title'', ''SJR'']]" and a = ?a and c = mem_client
            and w = "[(''proj.journal_rank.scimagojr_2024'', [\<lparr>title = ''Old'', sjr = Finite 1\<rparr>])]"
            and ev = "[]", OF h] h
  show ?thesis
    by simp
qed

subsection \<open>The run after the extractor\<close>

text \<open>The events of \<open>main\<close> up to the call of the schema manager.\<close>

lemma main_after_extract:
  assumes "fs (csv_file a) \<noteq> Missing"
    and "process_scimagojr_csv fs (csv_file a)
           (ev @ [Print [Txt ''Processing CSV file: '', Txt (csv_file a)]]) = (Inr journals, ev2)"
    and "create_bigquery_table c (project_id a) (dataset_id a) (table_id a)
           (w, ev2 @ [Print [Txt ''Extracted '', Num (length journals), Txt '' journal entries''],
                       Print [Txt [CHR 0x0A], Txt ''Sample data (first 5 entries):'']]
                   @ sample_lines journals
                   @ [Print [Txt [CHR 0x0A], Txt ''Creating BigQuery table...'']]) = (r, st4)"
  shows "main fs c a (w, ev) =
           (case r of
              Inl e \<Rightarrow> (Inl e, st4)
            | Inr _ \<Rightarrow>
                (case load_data_to_bigquery c (project_id a) (dataset_id a) (table_id a) journals
                        (fst st4, snd st4 @ [Print [Txt ''Loading data into BigQuery...'']]) of
                   (Inl e, st5) \<Rightarrow> (Inl e, st5)
                 | (Inr _, st5) \<Rightarrow> (Inr (), (fst st5, snd st5 @ done_lines a))))"
  using assms by (cases st4) (simp add: main_def path_exists_def split: sum.splits prod.splits)

lemma create_bigquery_table_run:
  assumes "bq_Client c pid w = (None, w0)"
    and "bq_Table c (table_ref_of pid did tid) = None"
    and "delete_table c (table_ref_of pid did tid) w0 = (r1, w1)"
    and "create_table c (table_ref_of pid did tid) table_schema w1 = (r2, w2)"
  shows "create_bigquery_table c pid did tid (w, ev) =
           ((case r2 of Some e \<Rightarrow> Inl (LibraryError e) | None \<Rightarrow> Inr (table_ref_of pid did tid)),
            (w2, ev @ [NewClient pid, DeleteTable (table_ref_of pid did tid)]
                    @ (case r1 of
                         None \<Rightarrow> [Print [Txt ''Deleted existing table '', Txt (table_ref_of pid did tid)]]
                       | Some _ \<Rightarrow> [])
                    @ [CreateTable (table_ref_of pid did tid) table_schema]
                    @ (case r2 of
                         None \<Rightarrow> [Print [Txt ''Created table '', Txt (table_ref_of pid did tid)]]
                       | Some _ \<Rightarrow> [])))"
  using assms by (simp add: create_bigquery_table_def Let_def split: option.splits)

text \<open>
  C6. In the schema manager, once the client and the table object are built, the
  outcome of \<open>delete_table\<close> never reaches the caller: whatever it is, \<open>create_table\<close>
  is called next, on the state the deletion left, and the result of the function is
  decided by the creation alone. A failure of the creation is the result of the
  function, and in \<open>main\<close> it ends the run with exit status 1 right after the call,
  before any load.
\<close>

theorem delete_swallowed_create_propagates:
  assumes "fs (csv_file a) \<noteq> Missing"
    and "process_scimagojr_csv fs (csv_file a)
           (ev @ [Print [Txt ''Processing CSV file: '', Txt (csv_file a)]]) = (Inr journals, ev2)"
    and "bq_Client c (project_id a) w = (None, w0)"
    and "bq_Table c (table_ref_of (project_id a) (dataset_id a) (table_id a)) = None"
    and "delete_table c (table_ref_of (project_id a) (dataset_id a) (table_id a)) w0 = (r1, w1)"
    and "create_table c (table_ref_of (project_id a) (dataset_id a) (table_id a)) table_schema w1
           = (r2, w2)"
  shows "(\<forall>st. fst (create_bigquery_table c (project_id a) (dataset_id a) (table_id a) (w, st)) =
            (case r2 of
               Some e \<Rightarrow> Inl (LibraryError e)
             | None \<Rightarrow> Inr (table_ref_of (project_id a) (dataset_id a) (table_id a))))
         \<and> CreateTable (table_ref_of (project_id a) (dataset_id a) (table_id a)) table_schema
             \<in> set (snd (snd (main fs c a (w, ev))))
         \<and> (\<forall>e. r2 = Some e \<longrightarrow>
               fst (main fs c a (w, ev)) = Inl (LibraryError e) \<and>
               exit_status (fst (main fs c a (w, ev))) = 1 \<and>
               fst (snd (main fs c a (w, ev))) = w2 \<and>
               last (snd (snd (main fs c a (w, ev))))
                 = CreateTable (table_ref_of (project_id a) (dataset_id a) (table_id a)) table_schema)"
proof -
  let ?ref = "table_ref_of (project_id a) (dataset_id a) (table_id a)"
  let ?ev3 = "ev2 @ [Print [Txt ''Extracted '', Num (length journals), Txt '' journal entries''],
                     Print [Txt [CHR 0x0A], Txt ''Sample data (first 5 entries):'']]
                 @ sample_lines journals
                 @ [Print [Txt [CHR 0x0A], Txt ''Creating BigQuery table...'']]"
  have cr: "create_bigquery_table c (project_id a) (dataset_id a) (table_id a) (w, st) =
           ((case r2 of Some e \<Rightarrow> Inl (LibraryError e) | None \<Rightarrow> Inr ?ref),
            (w2, st @ [NewClient (project_id a), DeleteTable ?ref]
                    @ (case r1 of None \<Rightarrow> [Print [Txt ''Deleted existing table '', Txt ?ref]]
                       | Some _ \<Rightarrow> [])
                    @ [CreateTable ?ref table_schema]
                    @ (case r2 of None \<Rightarrow> [Print [Txt ''Created table '', Txt ?ref]]
                       | Some _ \<Rightarrow> [])))" for st
    using assms(3-6) by (rule create_bigquery_table_run)
  define evc where "evc = ?ev3 @ [NewClient (project_id a), DeleteTable ?ref]
                    @ (case r1 of None \<Rightarrow> [Print [Txt ''Deleted existing table '', Txt ?ref]]
                       | Some _ \<Rightarrow> [])
                    @ [CreateTable ?ref table_schema]"
  have c3: "create_bigquery_table c (project_id a) (dataset_id a) (table_id a) (w, ?ev3) =
           ((case r2 of Some e \<Rightarrow> Inl (LibraryError e) | None \<Rightarrow> Inr ?ref),
            (w2, evc @ (case r2 of None \<Rightarrow> [Print [Txt ''Created table '', Txt ?ref]]
                        | Some _ \<Rightarrow> [])))"
    unfolding evc_def using cr [of ?ev3] by simp
  note m = main_after_extract [OF assms(1,2) c3]
  have lastc: "last evc = CreateTable ?ref table_schema" and inc: "CreateTable ?ref table_schema \<in> set evc"
    by (simp_all add: evc_def)
  have a1: "\<forall>st. fst (create_bigquery_table c (project_id a) (dataset_id a) (table_id a) (w, st)) =
            (case r2 of Some e \<Rightarrow> Inl (LibraryError e) | None \<Rightarrow> Inr ?ref)"
    by (simp add: cr)
  have a3: "fst (main fs c a (w, ev)) = Inl (LibraryError e) \<and>
            exit_status (fst (main fs c a (w, ev))) = 1 \<and>
            fst (snd (main fs c a (w, ev))) = w2 \<and>
            last (snd (snd (main fs c a (w, ev)))) = CreateTable ?ref table_schema"
    if "r2 = Some e" for e
    using that lastc by (simp add: m)
  have a2: "CreateTable ?ref table_schema \<in> set (snd (snd (main fs c a (w, ev))))"
  proof (cases r2)
    case (Some e)
    then show ?thesis using inc by (simp add: m)
  next
    case None
    have g: "CreateTable ?ref table_schema \<in> set st \<Longrightarrow>
             CreateTable ?ref table_schema \<in> set (snd (snd (load_data_to_bigquery c p d t js (w', st))))"
      for st p d t js w'
      by (auto simp: load_data_to_bigquery_def Let_def split: prod.splits option.splits sum.splits)
    have k: "CreateTable ?ref table_schema \<in> set (snd (snd (case x of
                   (Inl e, st5) \<Rightarrow> (Inl e, st5)
                 | (Inr _, st5) \<Rightarrow> (Inr (), (fst st5, snd st5 @ done_lines a)))))"
      if "CreateTable ?ref table_schema \<in> set (snd (snd x))" for x :: "(exn + unit) \<times> 'a state"
      using that by (auto split: prod.splits sum.splits)
    from None show ?thesis
      by (simp add: m) (rule k, rule g, simp add: inc)
  qed
  from a1 a2 a3 show ?thesis
    by blast
qed

theorem delete_swallowed_create_propagates_witness:
  "delete_table denied_client ''proj.journal_rank.scimagojr_2024'' () = (Some ''Forbidden'', ())
   \<and> create_table denied_client ''proj.journal_rank.scimagojr_2024'' table_schema ()
       = (Some ''Forbidden'', ())
   \<and> fst (main (one_file ''j.csv'' [[''Title'', ''SJR''], [''Cell'', ''14,1'']]) denied_client
             \<lparr>project_id = ''proj'', dataset_id = ''journal_rank'', table_id = ''scimagojr_2024'',
              csv_file = ''j.csv''\<rparr> ((), []))
       = Inl (LibraryError ''Forbidden'')
   \<and> exit_status (fst (main (one_file ''j.csv'' [[''Title'', ''SJR''], [''Cell'', ''14,1'']]) denied_client
             \<lparr>project_id = ''proj'', dataset_id = ''journal_rank'', table_id = ''scimagojr_2024'',
              csv_file = ''j.csv''\<rparr> ((), []))) = 1
   \<and> last (snd (snd (main (one_file ''j.csv'' [[''Title'', ''SJR''], [''Cell'', ''14,1'']]) denied_client
             \<lparr>project_id = ''proj'', dataset_id = ''journal_rank'', table_id = ''scimagojr_2024'',
              csv_file = ''j.csv''\<rparr> ((), []))))
       = CreateTable ''proj.journal_rank.scimagojr_2024'' table_schema"
proof -
  let ?fs = "one_file ''j.csv'' [[''Title'', ''SJR''], [''Cell'', ''14,1'']]"
  let ?a = "\<lparr>project_id = ''proj'', dataset_id = ''journal_rank'', table_id = ''scimagojr_2024'',
             csv_file = ''j.csv''\<rparr>"
  have r: "table_ref_of (project_id ?a) (dataset_id ?a) (table_id ?a) = ''proj.journal_rank.scimagojr_2024''"
    by (simp add: table_ref_of_def)
  have h1: "?fs (csv_file ?a) \<noteq> Missing"
    by (simp add: one_file_def)
  have h2: "process_scimagojr_csv ?fs (csv_file ?a)
              ([] @ [Print [Txt ''Processing CSV file: '', Txt (csv_file ?a)]])
            = (Inr [\<lparr>title = ''Cell'', sjr = Finite (7937594343240499 / 562949953421312)\<rparr>],
               [Print [Txt ''Processing CSV file: '', Txt ''j.csv''], OpenFile ''j.csv''])"
    by (simp add: csv_eval float_14_1)
  have h3: "bq_Client denied_client (project_id ?a) () = (None, ())"
    by (simp add: denied_client_def)
  have h4: "bq_Table denied_client (table_ref_of (project_id ?a) (dataset_id ?a) (table_id ?a)) = None"
    by (simp add: denied_client_def)
  have h5: "delete_table denied_client (table_ref_of (project_id ?a) (dataset_id ?a) (table_id ?a)) ()
              = (Some ''Forbidden'', ())"
    by (simp add: denied_client_def)
  have h6: "create_table denied_client (table_ref_of (project_id ?a) (dataset_id ?a) (table_id ?a))
              table_schema () = (Some ''Forbidden'', ())"
    by (simp add: denied_client_def)
  from delete_swallowed_create_propagates [where fs = ?fs and a = ?a and ev = "[]", OF h1 h2 h3 h4 h5 h6]
    h5 h6 r
  show ?thesis
    by simp
qed

text \<open>
  C8. Once the client is built and the load job is started, the loader waits for the
  result of the job; the job is started with the write disposition \<open>WRITE_TRUNCATE\<close>.
  Only when the wait returns without an exception is the table fetched, from the state
  the wait left, and the number printed is the \<open>num_rows\<close> of that table, whatever
  number of records was sent. When the wait raises, the table is not fetched.
\<close>

theorem load_waits_then_reports_stored_count:
  assumes "bq_Client c pid w = (None, w0)"
    and "load_table_from_json c journals_data (table_ref_of pid did tid) load_job_config w0
           = (Inr job, w1)"
    and "job_result c job w1 = (r2, w2)"
    and "get_table c (table_ref_of pid did tid) w2 = (r3, w3)"
  shows "write_disposition load_job_config = WRITE_TRUNCATE \<and>
         load_data_to_bigquery c pid did tid journals_data (w, ev) =
           (case r2 of
              Some e \<Rightarrow>
                (Inl (LibraryError e),
                 (w2, ev @ [NewClient pid,
                            LoadTableFromJson journals_data (table_ref_of pid did tid) load_job_config,
                            JobResult]))
            | None \<Rightarrow>
                (case r3 of
                   Inl e \<Rightarrow>
                     (Inl (LibraryError e),
                      (w3, ev @ [NewClient pid,
                                 LoadTableFromJson journals_data (table_ref_of pid did tid) load_job_config,
                                 JobResult, GetTable (table_ref_of pid did tid)]))
                 | Inr num_rows \<Rightarrow>
                     (Inr (),
                      (w3, ev @ [NewClient pid,
                                 LoadTableFromJson journals_data (table_ref_of pid did tid) load_job_config,
                                 JobResult, GetTable (table_ref_of pid did tid),
                                 Print [Txt ''Loaded '', Num num_rows, Txt '' rows into '',
                                        Txt (table_ref_of pid did tid)]]))))"
  using assms
  by (simp add: load_data_to_bigquery_def load_job_config_def Let_def split: option.splits sum.splits)

theorem load_waits_then_reports_stored_count_witness:
  "load_data_to_bigquery (store_client (take 1)) ''proj'' ''journal_rank'' ''scimagojr_2024''
       [\<lparr>title = ''Acta'', sjr = Finite 0\<rparr>, \<lparr>title = ''Brain'', sjr = Finite (5 / 2)\<rparr>] ([], [])
     = (Inr (),
        ([(''proj.journal_rank.scimagojr_2024'', [\<lparr>title = ''Acta'', sjr = Finite 0\<rparr>])],
         [NewClient ''proj'',
          LoadTableFromJson [\<lparr>title = ''Acta'', sjr = Finite 0\<rparr>, \<lparr>title = ''Brain'', sjr = Finite (5 / 2)\<rparr>]
            ''proj.journal_rank.scimagojr_2024'' load_job_config,
          JobResult, GetTable ''proj.journal_rank.scimagojr_2024'',
          Print [Txt ''Loaded '', Num 1, Txt '' rows into '', Txt ''proj.journal_rank.scimagojr_2024'']]))"
proof -
  let ?c = "store_client (take 1)"
  let ?js = "[\<lparr>title = ''Acta'', sjr = Finite 0\<rparr>, \<lparr>title = ''Brain'', sjr = Finite (5 / 2)\<rparr>]"
  let ?ref = "''proj.journal_rank.scimagojr_2024''"
  have r: "table_ref_of ''proj'' ''journal_rank'' ''scimagojr_2024'' = ?ref"
    by (simp add: table_ref_of_def)
  have h1: "bq_Client ?c ''proj'' [] = (None, [])"
    by (simp add: store_client_def)
  have h2: "load_table_from_json ?c ?js (table_ref_of ''proj'' ''journal_rank'' ''scimagojr_2024'')
              load_job_config [] = (Inr (?js, ?ref, WRITE_TRUNCATE), [])"
    by (simp add: store_client_def r load_job_config_def)
  have h3: "job_result ?c (?js, ?ref, WRITE_TRUNCATE) []
              = (None, [(?ref, [\<lparr>title = ''Acta'', sjr = Finite 0\<rparr>])])"
    by (simp add: store_client_def store_put_def)
  have h4: "get_table ?c (table_ref_of ''proj'' ''journal_rank'' ''scimagojr_2024'')
              [(?ref, [\<lparr>title = ''Acta'', sjr = Finite 0\<rparr>])]
            = (Inr 1, [(?ref, [\<lparr>title = ''Acta'', sjr = Finite 0\<rparr>])])"
    by (simp add: store_client_def r)
  from load_waits_then_reports_stored_count [where ev = "[]", OF h1 h2 h3 h4] r
  show ?thesis
    by simp
qed

subsection \<open>Runs that succeed\<close>

lemma load_data_to_bigquery_Inr:
  assumes "load_data_to_bigquery c pid did tid rows (w, ev) = (Inr u, (w', ev'))"
  shows "\<exists>w0 job w1 w2 n.
           bq_Client c pid w = (None, w0) \<and>
           load_table_from_json c rows (table_ref_of pid did tid) load_job_config w0 = (Inr job, w1) \<and>
           job_result c job w1 = (None, w2) \<and>
           get_table c (table_ref_of pid did tid) w2 = (Inr n, w') \<and>
           ev' = ev @ [NewClient pid,
                       LoadTableFromJson rows (table_ref_of pid did tid) load_job_config,
                       JobResult, GetTable (table_ref_of pid did tid),
                       Print [Txt ''Loaded '', Num n, Txt '' rows into '', Txt (table_ref_of pid did tid)]]"
  using assms
  by (auto simp: load_data_to_bigquery_def Let_def split: prod.splits option.splits sum.splits)

lemma main_Inr:
  assumes "main fs c a (w, ev) = (Inr u, (w', ev'))"
  shows "\<exists>rows journals ev2 w4 ev4 ev5.
           fs (csv_file a) = Readable rows \<and>
           process_scimagojr_csv fs (csv_file a)
             (ev @ [Print [Txt ''Processing CSV file: '', Txt (csv_file a)]]) = (Inr journals, ev2) \<and>
           load_data_to_bigquery c (project_id a) (dataset_id a) (table_id a) journals (w4, ev4)
             = (Inr (), (w', ev5)) \<and>
           ev' = ev5 @ done_lines a"
proof -
  from assms have ex: "fs (csv_file a) \<noteq> Missing"
    by (auto simp: main_def path_exists_def split: if_splits)
  from assms ex obtain journals ev2 where
    p: "process_scimagojr_csv fs (csv_file a)
          (ev @ [Print [Txt ''Processing CSV file: '', Txt (csv_file a)]]) = (Inr journals, ev2)"
    by (auto simp: main_def path_exists_def split: prod.splits sum.splits)
  then obtain rows where r: "fs (csv_file a) = Readable rows"
    by (auto simp: process_scimagojr_csv_def split: file_state.splits)
  from assms ex p obtain w4 ev4 ev5 where
    "load_data_to_bigquery c (project_id a) (dataset_id a) (table_id a) journals (w4, ev4)
       = (Inr (), (w', ev5))" "ev' = ev5 @ done_lines a"
    by (auto simp: main_def path_exists_def split: prod.splits sum.splits)
  with p r show ?thesis
    by blast
qed

lemma single_run:
  assumes trunc: "\<forall>rows r cfg w job w1 w2.
             load_table_from_json c rows r cfg w = (Inr job, w1) \<and>
             job_result c job w1 = (None, w2) \<and>
             write_disposition cfg = WRITE_TRUNCATE \<longrightarrow> contents w2 r = Some rows"
    and meta: "\<forall>r w n w' rows.
             get_table c r w = (Inr n, w') \<and> contents w r = Some rows \<longrightarrow>
             contents w' r = Some rows \<and> n = length rows"
    and run: "main fs c a (w0, ev0) = (Inr (), (w1, ev1))"
  shows "\<exists>rows journals pre.
           fs (csv_file a) = Readable rows \<and>
           map Some journals = map journal_of_row (dict_reader rows) \<and>
           contents w1 (table_ref_of (project_id a) (dataset_id a) (table_id a)) = Some journals \<and>
           ev1 = pre @ [Print [Txt ''Loaded '', Num (length journals), Txt '' rows into '',
                               Txt (table_ref_of (project_id a) (dataset_id a) (table_id a))]]
                     @ done_lines a"
proof -
  let ?ref = "table_ref_of (project_id a) (dataset_id a) (table_id a)"
  from main_Inr [OF run] obtain rows journals ev2 w4 ev4 ev5 where
    r: "fs (csv_file a) = Readable rows"
    and p: "process_scimagojr_csv fs (csv_file a)
              (ev0 @ [Print [Txt ''Processing CSV file: '', Txt (csv_file a)]]) = (Inr journals, ev2)"
    and l: "load_data_to_bigquery c (project_id a) (dataset_id a) (table_id a) journals (w4, ev4)
              = (Inr (), (w1, ev5))"
    and e: "ev1 = ev5 @ done_lines a"
    by blast
  from load_data_to_bigquery_Inr [OF l] obtain x0 job x1 x2 n where
    s: "load_table_from_json c journals ?ref load_job_config x0 = (Inr job, x1)"
    and j: "job_result c job x1 = (None, x2)"
    and g: "get_table c ?ref x2 = (Inr n, w1)"
    and e5: "ev5 = ev4 @ [NewClient (project_id a), LoadTableFromJson journals ?ref load_job_config,
                          JobResult, GetTable ?ref,
                          Print [Txt ''Loaded '', Num n, Txt '' rows into '', Txt ?ref]]"
    by blast
  have "write_disposition load_job_config = WRITE_TRUNCATE"
    by (simp add: load_job_config_def)
  with trunc s j have "contents x2 ?ref = Some journals"
    by blast
  with meta g have c: "contents w1 ?ref = Some journals" and n: "n = length journals"
    by blast+
  have m: "map Some journals = map journal_of_row (dict_reader rows)"
    using p r by (rule process_Inr)
  have "ev1 = (ev4 @ [NewClient (project_id a), LoadTableFromJson journals ?ref load_job_config,
                      JobResult, GetTable ?ref])
              @ [Print [Txt ''Loaded '', Num (length journals), Txt '' rows into '', Txt ?ref]]
              @ done_lines a"
    using e e5 n by simp
  with r m c show ?thesis
    by blast
qed

text \<open>
  C9. Take any warehouse whose load with \<open>WRITE_TRUNCATE\<close>, once its job has ended
  without an exception, leaves in the table exactly the rows that were sent, and
  whose \<open>get_table\<close> reports the number of rows of the table and leaves them as they
  are; \<open>contents\<close> reads the rows of a table in a remote state. Then after a run of
  \<open>main\<close> that returns, from any remote state, the table holds exactly the records of
  the data rows of the file, and the count printed is their number. A second run on
  the same file that returns leaves the same records and prints the same count.
\<close>

theorem full_refresh_idempotent:
  assumes trunc: "\<forall>rows r cfg w job w1 w2.
             load_table_from_json c rows r cfg w = (Inr job, w1) \<and>
             job_result c job w1 = (None, w2) \<and>
             write_disposition cfg = WRITE_TRUNCATE \<longrightarrow> contents w2 r = Some rows"
    and meta: "\<forall>r w n w' rows.
             get_table c r w = (Inr n, w') \<and> contents w r = Some rows \<longrightarrow>
             contents w' r = Some rows \<and> n = length rows"
    and run: "main fs c a (w0, ev0) = (Inr (), (w1, ev1))"
  shows "\<exists>rows journals.
           fs (csv_file a) = Readable rows \<and>
           map Some journals = map journal_of_row (dict_reader rows) \<and>
           contents w1 (table_ref_of (project_id a) (dataset_id a) (table_id a)) = Some journals \<and>
           (\<exists>pre. ev1 = pre @ [Print [Txt ''Loaded '', Num (length journals), Txt '' rows into '',
                                       Txt (table_ref_of (project_id a) (dataset_id a) (table_id a))]]
                             @ done_lines a) \<and>
           (\<forall>w2 ev2. main fs c a (w1, ev1) = (Inr (), (w2, ev2)) \<longrightarrow>
              contents w2 (table_ref_of (project_id a) (dataset_id a) (table_id a)) = Some journals \<and>
              (\<exists>pre. ev2 = pre @ [Print [Txt ''Loaded '', Num (length journals), Txt '' rows into '',
                                          Txt (table_ref_of (project_id a) (dataset_id a) (table_id a))]]
                                @ done_lines a))"
proof -
  let ?ref = "table_ref_of (project_id a) (dataset_id a) (table_id a)"
  from single_run [OF trunc meta run] obtain rows journals pre where
    r: "fs (csv_file a) = Readable rows"
    and m: "map Some journals = map journal_of_row (dict_reader rows)"
    and c: "contents w1 ?ref = Some journals"
    and e: "ev1 = pre @ [Print [Txt ''Loaded '', Num (length journals), Txt '' rows into '', Txt ?ref]]
                  @ done_lines a"
    by blast
  have "contents w2 ?ref = Some journals \<and>
        (\<exists>pre. ev2 = pre @ [Print [Txt ''Loaded '', Num (length journals), Txt '' rows into '',
                                    Txt ?ref]] @ done_lines a)"
    if again: "main fs c a (w1, ev1) = (Inr (), (w2, ev2))" for w2 ev2
  proof -
    from single_run [OF trunc meta again] obtain rows' journals' pre' where
      r': "fs (csv_file a) = Readable rows'"
      and m': "map Some journals' = map journal_of_row (dict_reader rows')"
      and c': "contents w2 ?ref = Some journals'"
      and e': "ev2 = pre' @ [Print [Txt ''Loaded '', Num (length journals'), Txt '' rows into '',
                                    Txt ?ref]] @ done_lines a"
      by blast
    from r r' have "rows' = rows"
      by simp
    with m m' have "map Some journals' = map Some journals"
      by simp
    then have "journals' = journals"
      by (simp add: inj_map_eq_map)
    with c' e' show ?thesis
      by blast
  qed
  with r m c e show ?thesis
    by blast
qed

lemma map_of_filter_removed:
  "map_of (filter (\<lambda>kv. fst kv \<noteq> r) w) r = None"
  by (induction w) auto

theorem full_refresh_idempotent_witness:
  "fst (main (one_file ''j.csv'' [[''Title'', ''SJR''], [''Acta'', ''N/A''], [''Brain'', ''2,5'']])
          mem_client
          \<lparr>project_id = ''proj'', dataset_id = ''journal_rank'', table_id = ''scimagojr_2024'',
           csv_file = ''j.csv''\<rparr>
          ([(''proj.journal_rank.scimagojr_2024'', [\<lparr>title = ''Old'', sjr = Finite 1\<rparr>])], []))
     = Inr ()
   \<and> map_of (fst (snd (main (one_file ''j.csv'' [[''Title'', ''SJR''], [''Acta'', ''N/A''], [''Brain'', ''2,5'']])
          mem_client
          \<lparr>project_id = ''proj'', dataset_id = ''journal_rank'', table_id = ''scimagojr_2024'',
           csv_file = ''j.csv''\<rparr>
          ([(''proj.journal_rank.scimagojr_2024'', [\<lparr>title = ''Old'', sjr = Finite 1\<rparr>])], []))))
        ''proj.journal_rank.scimagojr_2024''
     = Some [\<lparr>title = ''Acta'', sjr = Finite 0\<rparr>, \<lparr>title = ''Brain'', sjr = Finite (5 / 2)\<rparr>]
   \<and> fst (main (one_file ''j.csv'' [[''Title'', ''SJR''], [''Acta'', ''N/A''], [''Brain'', ''2,5'']])
          mem_client
          \<lparr>project_id = ''proj'', dataset_id = ''journal_rank'', table_id = ''scimagojr_2024'',
           csv_file = ''j.csv''\<rparr>
          (snd (main (one_file ''j.csv'' [[''Title'', ''SJR''], [''Acta'', ''N/A''], [''Brain'', ''2,5'']])
            mem_client
            \<lparr>project_id = ''proj'', dataset_id = ''journal_rank'', table_id = ''scimagojr_2024'',
             csv_file = ''j.csv''\<rparr>
            ([(''proj.journal_rank.scimagojr_2024'', [\<lparr>title = ''Old'', sjr = Finite 1\<rparr>])], []))))
     = Inr ()
   \<and> map_of (fst (snd (main (one_file ''j.csv'' [[''Title'', ''SJR''], [''Acta'', ''N/A''], [''Brain'', ''2,5'']])
          mem_client
          \<lparr>project_id = ''proj'', dataset_id = ''journal_rank'', table_id = ''scimagojr_2024'',
           csv_file = ''j.csv''\<rparr>
          (snd (main (one_file ''j.csv'' [[''Title'', ''SJR''], [''Acta'', ''N/A''], [''Brain'', ''2,5'']])
            mem_client
            \<lparr>project_id = ''proj'', dataset_id = ''journal_rank'', table_id = ''scimagojr_2024'',
             csv_file = ''j.csv''\<rparr>
            ([(''proj.journal_rank.scimagojr_2024'', [\<lparr>title = ''Old'', sjr = Finite 1\<rparr>])], []))))))
        ''proj.journal_rank.scimagojr_2024''
     = Some [\<lparr>title = ''Acta'', sjr = Finite 0\<rparr>, \<lparr>title = ''Brain'', sjr = Finite (5 / 2)\<rparr>]"
proof -
  let ?rows = "[[''Title'', ''SJR''], [''Acta'', ''N/A''], [''Brain'', ''2,5'']]"
  let ?fs = "one_file ''j.csv'' ?rows"
  let ?a = "\<lparr>project_id = ''proj'', dataset_id = ''journal_rank'', table_id = ''scimagojr_2024'',
             csv_file = ''j.csv''\<rparr>"
  let ?w0 = "[(''proj.journal_rank.scimagojr_2024'', [\<lparr>title = ''Old'', sjr = Finite 1\<rparr>])]"
  let ?js = "[\<lparr>title = ''Acta'', sjr = Finite 0\<rparr>, \<lparr>title = ''Brain'', sjr = Finite (5 / 2)\<rparr>]"
  let ?m = "main ?fs mem_client ?a (?w0, [])"
  let ?m2 = "main ?fs mem_client ?a (fst (snd ?m), snd (snd ?m))"
  have t: "\<forall>rows r cfg w job w1 w2.
             load_table_from_json mem_client rows r cfg w = (Inr job, w1) \<and>
             job_result mem_client job w1 = (None, w2) \<and>
             write_disposition cfg = WRITE_TRUNCATE \<longrightarrow> map_of w2 r = Some rows"
    by (auto simp: mem_client_def store_client_def store_put_def)
  have g: "\<forall>r w n w' rows.
             get_table mem_client r w = (Inr n, w') \<and> map_of w r = Some rows \<longrightarrow>
             map_of w' r = Some rows \<and> n = length rows"
    by (auto simp: mem_client_def store_client_def)
  have p: "process_scimagojr_csv ?fs ''j.csv'' (ev @ [Print [Txt ''Processing CSV file: '', Txt ''j.csv'']])
             = (Inr ?js, ev @ [Print [Txt ''Processing CSV file: '', Txt ''j.csv''], OpenFile ''j.csv'',
                               warning ''N/A'' ''Acta''])" for ev
    by (simp add: csv_eval float_NA float_2_5)
  have ok: "fst (main ?fs mem_client ?a (w, ev)) = Inr ()" for w ev
    by (simp add: main_def path_exists_def p one_file_def create_bigquery_table_def
          load_data_to_bigquery_def mem_client_def store_client_def store_put_def table_ref_of_def
          load_job_config_def Let_def map_of_filter_removed)
  have run: "?m = (Inr (), (fst (snd ?m), snd (snd ?m)))"
    using ok [of ?w0 "[]"] by (metis prod.collapse)
  have again: "?m2 = (Inr (), (fst (snd ?m2), snd (snd ?m2)))"
    using ok [of "fst (snd ?m)" "snd (snd ?m)"] by (metis prod.collapse)
  have d: "map journal_of_row (dict_reader ?rows) = [Some (?js ! 0), Some (?js ! 1)]"
    by (simp add: dict_reader_def data_rows_def make_row_def journal_of_row_def sjr_of_def strip_def
          py_isspace_def replace_comma_def float_NA float_2_5)
  from full_refresh_idempotent [OF t g run] obtain rows journals where
    r: "?fs (csv_file ?a) = Readable rows"
    and m: "map Some journals = map journal_of_row (dict_reader rows)"
    and c: "map_of (fst (snd ?m)) (table_ref_of (project_id ?a) (dataset_id ?a) (table_id ?a))
              = Some journals"
    and s: "\<forall>w2 ev2. ?m2 = (Inr (), (w2, ev2)) \<longrightarrow>
              map_of w2 (table_ref_of (project_id ?a) (dataset_id ?a) (table_id ?a)) = Some journals \<and>
              (\<exists>pre. ev2 = pre @ [Print [Txt ''Loaded '', Num (length journals), Txt '' rows into '',
                                          Txt (table_ref_of (project_id ?a) (dataset_id ?a) (table_id ?a))]]
                                @ done_lines ?a)"
    by blast
  from s again have c2: "map_of (fst (snd ?m2)) (table_ref_of (project_id ?a) (dataset_id ?a) (table_id ?a))
              = Some journals"
    by blast
  from r have "rows = ?rows"
    by (simp add: one_file_def)
  with m d have j: "journals = ?js"
    by auto
  have ref: "table_ref_of (project_id ?a) (dataset_id ?a) (table_id ?a) = ''proj.journal_rank.scimagojr_2024''"
    by (simp add: table_ref_of_def)
  from c c2 j ref ok [of ?w0 "[]"] ok [of "fst (snd ?m)" "snd (snd ?m)"] show ?thesis
    by simp
qed

end
